theory Spec2Isabelle
  imports Main
begin

section \<open>The authentication service of smooth-transact-api\<close>

text \<open>
  A shallow embedding of \<^verbatim>\<open>src/auth/auth.service.ts\<close> (class \<^verbatim>\<open>AuthService\<close>).
  Every method becomes a function from the state of the outside world (the user table,
  the Redis cache, the clock) to a result and the new state. An exception is a value
  \<open>Inl e\<close>; the state is returned beside it, because a \<^verbatim>\<open>throw\<close> does not undo the
  writes made before it. The libraries the service calls (bcrypt, the JWT signer, otplib,
  the configuration) are parameters, collected in the record \<open>deps\<close>; what they draw
  from their surroundings (a random salt, the clock, a fresh row id) is an explicit
  argument.
\<close>

subsection \<open>Data\<close>

datatype error =
    ConflictException string
  | NotFoundException string
  | InternalServerErrorException
  | Error string
  | TypeError string
  | SyntaxError string

text \<open>The entity \<^verbatim>\<open>User\<close>: a field that is \<^verbatim>\<open>undefined\<close> or \<^verbatim>\<open>null\<close> is \<open>None\<close>.\<close>

record user =
  user_id :: string
  user_email :: string
  user_password :: "string option"
  user_role :: string
  user_refreshToken :: "string option"

record create_user_dto =
  dto_email :: string
  dto_password :: string
  dto_role :: string

text \<open>The object literals passed to \<^verbatim>\<open>usersService.update\<close>:
  \<^verbatim>\<open>{ refreshToken: ... }\<close> and \<^verbatim>\<open>{ password: ... }\<close>.\<close>

datatype user_update = SetRefreshToken "string option" | SetPassword string

record payload =
  payload_sub :: string
  payload_role :: string

record jwt_sign_options =
  opt_secret :: "string option"
  opt_expiresIn :: "string option"

record cookie =
  cookie_name :: string
  cookie_value :: string
  cookie_httpOnly :: bool
  cookie_secure :: bool
  cookie_sameSite :: bool
  cookie_maxAge :: nat
  cookie_path :: string

record signin_result =
  accessToken :: string
  refreshToken :: string
  cookie_serialized :: cookie

text \<open>
  The libraries. \<open>bcrypt_hash data salt\<close> stands for \<^verbatim>\<open>bcrypt.hash\<close> with the salt
  \<^verbatim>\<open>genSalt(10)\<close> drew; \<open>jwt_signAsync\<close> and the two TOTP functions read the clock,
  which is their last argument; \<open>totp_generate\<close> and \<open>totp_check\<close> carry the options
  \<^verbatim>\<open>{ digits: 6, step: 300 }\<close> set in the constructor.
\<close>

record deps =
  bcrypt_hash :: "string \<Rightarrow> string \<Rightarrow> string"
  bcrypt_compare :: "string \<Rightarrow> string \<Rightarrow> bool"
  jwt_signAsync :: "payload \<Rightarrow> jwt_sign_options \<Rightarrow> nat \<Rightarrow> string"
  jwt_decode :: "string \<Rightarrow> payload option"
  totp_generate :: "string option \<Rightarrow> nat \<Rightarrow> string"
  totp_check :: "string \<Rightarrow> string option \<Rightarrow> nat \<Rightarrow> bool"
  config_get :: "string \<Rightarrow> string option"

text \<open>The calls made to the two stores, in the order they are made (a ghost log).\<close>

datatype call =
    FindByEmail string
  | FindOne string
  | Create create_user_dto
  | Update string user_update
  | CacheExists string
  | CacheDel string
  | CacheSet string string nat
  | CacheGet string
  | CacheSAdd string string
  | CacheSIsMember string string

record world =
  users :: "user list"
  cache_kv :: "string \<Rightarrow> (string \<times> nat) option"
  cache_sets :: "string \<Rightarrow> string set"
  now :: nat
  calls :: "call list"

definition log_call :: "call \<Rightarrow> world \<Rightarrow> world" where
  "log_call c w = w\<lparr>calls := calls w @ [c]\<rparr>"

subsection \<open>The credential store\<close>

text \<open>
  Modelled from the spec: \<^verbatim>\<open>UsersService\<close> (\<^verbatim>\<open>src/users/users.service.ts\<close>) is not
  among the sources. The spec gives its contract, \<^verbatim>\<open>findByEmail(email) -> User|null\<close>,
  \<^verbatim>\<open>findOne(id) -> User|null\<close>, \<^verbatim>\<open>create(data) -> User\<close>,
  \<^verbatim>\<open>update(id, partial) -> User\<close>, over a key-addressed record store. The id of a new
  row is chosen by the store: it is the argument \<open>new_id\<close>.
\<close>

definition findByEmail :: "string \<Rightarrow> world \<Rightarrow> user option \<times> world" where
  "findByEmail e w = (find (\<lambda>u. user_email u = e) (users w), log_call (FindByEmail e) w)"

definition findOne :: "string \<Rightarrow> world \<Rightarrow> user option \<times> world" where
  "findOne i w = (find (\<lambda>u. user_id u = i) (users w), log_call (FindOne i) w)"

definition create :: "string \<Rightarrow> create_user_dto \<Rightarrow> world \<Rightarrow> user \<times> world" where
  "create new_id d w =
     (let u = \<lparr>user_id = new_id, user_email = dto_email d,
                user_password = Some (dto_password d), user_role = dto_role d,
                user_refreshToken = None\<rparr>
      in (u, log_call (Create d) (w\<lparr>users := users w @ [u]\<rparr>)))"

fun apply_update :: "user_update \<Rightarrow> user \<Rightarrow> user" where
  "apply_update (SetRefreshToken t) u = u\<lparr>user_refreshToken := t\<rparr>"
| "apply_update (SetPassword p) u = u\<lparr>user_password := Some p\<rparr>"

definition update :: "string \<Rightarrow> user_update \<Rightarrow> world \<Rightarrow> user option \<times> world" where
  "update i upd w =
     (let us = map (\<lambda>u. if user_id u = i then apply_update upd u else u) (users w)
      in (find (\<lambda>u. user_id u = i) us, log_call (Update i upd) (w\<lparr>users := us\<rparr>)))"

subsection \<open>The cache\<close>

text \<open>
  Modelled from the spec: \<^verbatim>\<open>RedisClient\<close> (\<^verbatim>\<open>src/utils/redis\<close>) is not among the
  sources. The spec gives \<^verbatim>\<open>get(key)\<close>, \<^verbatim>\<open>set(key, value, ttlSeconds)\<close>,
  \<^verbatim>\<open>del(key)\<close>, \<^verbatim>\<open>exists(key)\<close>, \<^verbatim>\<open>sadd(set, member)\<close>,
  \<^verbatim>\<open>sismember(set, member)\<close>, with entries that expire by themselves. An entry is
  stored with the instant at which it expires and is live strictly before it.
\<close>

definition live :: "world \<Rightarrow> string \<Rightarrow> string option" where
  "live w k = (case cache_kv w k of
                 None \<Rightarrow> None
               | Some (v, expiry) \<Rightarrow> if now w < expiry then Some v else None)"

definition cache_exists :: "string \<Rightarrow> world \<Rightarrow> bool \<times> world" where
  "cache_exists k w = (live w k \<noteq> None, log_call (CacheExists k) w)"

definition cache_get :: "string \<Rightarrow> world \<Rightarrow> string option \<times> world" where
  "cache_get k w = (live w k, log_call (CacheGet k) w)"

definition cache_del :: "string \<Rightarrow> world \<Rightarrow> world" where
  "cache_del k w = log_call (CacheDel k) (w\<lparr>cache_kv := (cache_kv w)(k := None)\<rparr>)"

definition cache_set :: "string \<Rightarrow> string \<Rightarrow> nat \<Rightarrow> world \<Rightarrow> world" where
  "cache_set k v ttl w =
     log_call (CacheSet k v ttl) (w\<lparr>cache_kv := (cache_kv w)(k \<mapsto> (v, now w + ttl))\<rparr>)"

definition cache_sadd :: "string \<Rightarrow> string \<Rightarrow> world \<Rightarrow> world" where
  "cache_sadd s m w =
     log_call (CacheSAdd s m) (w\<lparr>cache_sets := (cache_sets w)(s := insert m (cache_sets w s))\<rparr>)"

definition cache_sismember :: "string \<Rightarrow> string \<Rightarrow> world \<Rightarrow> bool \<times> world" where
  "cache_sismember s m w = (m \<in> cache_sets w s, log_call (CacheSIsMember s m) w)"

subsection \<open>Strings: the email pattern and \<^verbatim>\<open>toLowerCase\<close>\<close>

text \<open>
  \<^verbatim>\<open>email.match('^[a-z0-9._%+-]+@[a-z0-9.-]+\\.[a-z]{2,4}$')\<close>: the pattern is a
  sequence of character classes, each with a repetition count, between \<^verbatim>\<open>^\<close> and
  \<^verbatim>\<open>$\<close> (no flag, so they are the two ends of the string). A string matches when it
  can be cut into consecutive pieces, one per class, of an allowed length.
\<close>

datatype atom = Atom "char \<Rightarrow> bool" nat "nat option"

fun regex_match :: "atom list \<Rightarrow> string \<Rightarrow> bool" where
  "regex_match [] s = (s = [])"
| "regex_match (Atom cls lo hi # as) s =
     list_ex (\<lambda>n. list_all cls (take n s) \<and> regex_match as (drop n s))
       [lo ..< Suc (case hi of None \<Rightarrow> length s | Some h \<Rightarrow> min h (length s))]"

definition in_range :: "char \<Rightarrow> char \<Rightarrow> char \<Rightarrow> bool" where
  "in_range a b c = ((of_char a :: nat) \<le> of_char c \<and> (of_char c :: nat) \<le> of_char b)"

definition local_class :: "char \<Rightarrow> bool" where
  "local_class c = (in_range CHR ''a'' CHR ''z'' c \<or> in_range CHR ''0'' CHR ''9'' c
                    \<or> c = CHR ''.'' \<or> c = CHR ''_'' \<or> c = CHR ''%'' \<or> c = CHR ''+''
                    \<or> c = CHR ''-'')"

definition domain_class :: "char \<Rightarrow> bool" where
  "domain_class c = (in_range CHR ''a'' CHR ''z'' c \<or> in_range CHR ''0'' CHR ''9'' c
                     \<or> c = CHR ''.'' \<or> c = CHR ''-'')"

definition emailRegex :: "atom list" where
  "emailRegex =
     [Atom local_class 1 None,
      Atom (\<lambda>c. c = CHR ''@'') 1 (Some 1),
      Atom domain_class 1 None,
      Atom (\<lambda>c. c = CHR ''.'') 1 (Some 1),
      Atom (in_range CHR ''a'' CHR ''z'') 2 (Some 4)]"

text \<open>
  A \<open>char\<close> is a code unit below 256. \<^verbatim>\<open>toLowerCase\<close> there maps A-Z, and the
  Latin-1 capitals 0xC0-0xDE but 0xD7, to the code unit 32 above. The service lower-cases
  an email only after \<^verbatim>\<open>validateEmail\<close> has accepted it.
\<close>

definition is_upper :: "char \<Rightarrow> bool" where
  "is_upper c = in_range CHR ''A'' CHR ''Z'' c"

definition lower_char :: "char \<Rightarrow> char" where
  "lower_char c =
     (let n = (of_char c :: nat)
      in if (65 \<le> n \<and> n \<le> 90) \<or> (192 \<le> n \<and> n \<le> 222 \<and> n \<noteq> 215)
         then char_of (n + 32) else c)"

definition toLowerCase :: "string \<Rightarrow> string" where
  "toLowerCase s = map lower_char s"

subsection \<open>The service\<close>

definition otpKey :: "string \<Rightarrow> string" where
  "otpKey userId = userId @ '':otp''"

definition validateEmail :: "string \<Rightarrow> error + unit" where
  "validateEmail email =
     (if \<not> regex_match emailRegex email then Inl (NotFoundException ''Invalid email'')
      else Inr ())"

definition hashPassword :: "deps \<Rightarrow> string \<Rightarrow> string \<Rightarrow> error + string" where
  "hashPassword D salt password =
     (if password = [] then Inl (Error ''Password is required for hashing.'')
      else Inr (bcrypt_hash D password salt))"

definition bcryptCompare :: "deps \<Rightarrow> string \<Rightarrow> string option \<Rightarrow> error + bool" where
  \<comment> \<open>a call of \<^verbatim>\<open>bcrypt.compare(data, hash)\<close>: it throws when the hash is \<^verbatim>\<open>null\<close>
      or \<^verbatim>\<open>undefined\<close>\<close>
  "bcryptCompare D data hashed =
     (case hashed of
        None \<Rightarrow> Inl (Error ''data and hash arguments required'')
      | Some h \<Rightarrow> Inr (bcrypt_compare D data h))"

definition comparePassword :: "deps \<Rightarrow> string \<Rightarrow> string option \<Rightarrow> error + bool" where
  "comparePassword D password hashedPassword = bcryptCompare D password hashedPassword"

definition signup ::
  "deps \<Rightarrow> string \<Rightarrow> string \<Rightarrow> create_user_dto \<Rightarrow> world \<Rightarrow> (error + user) \<times> world" where
  "signup D salt new_id dto w =
     (case findByEmail (dto_email dto) w of
        (Some userExists, w1) \<Rightarrow> (Inl (ConflictException ''User already exists''), w1)
      | (None, w1) \<Rightarrow>
          (case hashPassword D salt (dto_password dto) of
             Inl e \<Rightarrow> (Inl e, w1)
           | Inr hashed \<Rightarrow>
               (case create new_id (dto\<lparr>dto_password := hashed\<rparr>) w1 of
                  (newUser, w2) \<Rightarrow> (Inr (newUser\<lparr>user_password := None\<rparr>), w2))))"

definition getTokenOption :: "deps \<Rightarrow> string \<Rightarrow> jwt_sign_options" where
  "getTokenOption D type =
     \<lparr>opt_secret = config_get D (type @ ''_secret''),
      opt_expiresIn = config_get D (type @ ''_expiresIn'')\<rparr>"

definition getTokens :: "deps \<Rightarrow> user \<Rightarrow> world \<Rightarrow> string \<times> string" where
  "getTokens D u w =
     (let p = \<lparr>payload_sub = user_id u, payload_role = user_role u\<rparr>
      in (jwt_signAsync D p (getTokenOption D ''access'') (now w),
          jwt_signAsync D p (getTokenOption D ''refresh'') (now w)))"

definition setCurrentRefreshToken :: "deps \<Rightarrow> string \<Rightarrow> string \<Rightarrow> string \<Rightarrow> world \<Rightarrow> world" where
  "setCurrentRefreshToken D salt token userId w =
     snd (update userId (SetRefreshToken (Some (bcrypt_hash D token salt))) w)"

definition setCookies :: "deps \<Rightarrow> string \<Rightarrow> cookie" where
  "setCookies D token =
     \<lparr>cookie_name = ''Bearer'', cookie_value = token, cookie_httpOnly = True,
      cookie_secure = (config_get D ''env'' = Some ''production''),
      cookie_sameSite = True, cookie_maxAge = 3600, cookie_path = ''/''\<rparr>"

definition signin :: "deps \<Rightarrow> string \<Rightarrow> user \<Rightarrow> world \<Rightarrow> signin_result \<times> world" where
  "signin D salt u w =
     (case getTokens D u w of
        (access, refresh) \<Rightarrow>
          (\<lparr>accessToken = access, refreshToken = refresh,
            cookie_serialized = setCookies D access\<rparr>,
           setCurrentRefreshToken D salt refresh (user_id u) w))"

definition revokeToken :: "string \<Rightarrow> world \<Rightarrow> world" where
  "revokeToken tokenId w = cache_sadd ''revokedToken'' tokenId w"

definition isTokenRevoked :: "string \<Rightarrow> world \<Rightarrow> bool \<times> world" where
  "isTokenRevoked tokenId w = cache_sismember ''revokedToken'' tokenId w"

text \<open>
  The first argument of \<^verbatim>\<open>signout\<close> goes through
  \<^verbatim>\<open>JSON.parse(JSON.stringify(reqUser))\<close> and its property \<^verbatim>\<open>user\<close> is read:
  \<^verbatim>\<open>undefined\<close> makes \<^verbatim>\<open>JSON.parse\<close> throw, \<^verbatim>\<open>null\<close> makes the destructuring
  throw, an object has the property or not. A token is missing when it is
  \<^verbatim>\<open>null\<close>, \<^verbatim>\<open>undefined\<close> or the empty string.
\<close>

datatype req_user = ReqUndefined | ReqNull | ReqObject "user option"

definition signout_try :: "req_user \<Rightarrow> string option \<Rightarrow> world \<Rightarrow> (error + bool) \<times> world" where
  \<comment> \<open>the body of the \<^verbatim>\<open>try\<close> block\<close>
  "signout_try reqUser token w =
     (case reqUser of
        ReqUndefined \<Rightarrow> (Inl (SyntaxError ''undefined is not valid JSON''), w)
      | ReqNull \<Rightarrow> (Inl (TypeError ''Cannot destructure property user of null''), w)
      | ReqObject None \<Rightarrow> (Inl (NotFoundException ''User not found''), w)
      | ReqObject (Some u) \<Rightarrow>
          (case token of
             None \<Rightarrow> (Inl (NotFoundException ''User not found''), w)
           | Some t \<Rightarrow>
               if t = [] then (Inl (NotFoundException ''User not found''), w)
               else (Inr True,
                     revokeToken t (snd (update (user_id u) (SetRefreshToken None) w)))))"

definition signout :: "req_user \<Rightarrow> string option \<Rightarrow> world \<Rightarrow> (error + bool) \<times> world" where
  \<comment> \<open>\<^verbatim>\<open>catch (error) { throw new InternalServerErrorException(); }\<close>\<close>
  "signout reqUser token w =
     (case signout_try reqUser token w of
        (Inl e, w') \<Rightarrow> (Inl InternalServerErrorException, w')
      | (Inr r, w') \<Rightarrow> (Inr r, w'))"

definition generateResetPasswordOtp :: "deps \<Rightarrow> world \<Rightarrow> string" where
  "generateResetPasswordOtp D w = totp_generate D (config_get D ''otp_secret'') (now w)"

definition forgotPassword :: "deps \<Rightarrow> string \<Rightarrow> world \<Rightarrow> (error + string) \<times> world" where
  "forgotPassword D email w =
     (case validateEmail email of
        Inl e \<Rightarrow> (Inl e, w)
      | Inr _ \<Rightarrow>
          (case findByEmail (toLowerCase email) w of
             (None, w1) \<Rightarrow> (Inl (NotFoundException ''User not found''), w1)
           | (Some u, w1) \<Rightarrow>
               (let otp = generateResetPasswordOtp D w1;
                    key = otpKey (user_id u);
                    (ex, w2) = cache_exists key w1;
                    w3 = (if ex then cache_del key w2 else w2)
                in (Inr otp, cache_set key otp 300 w3))))"

definition verifyResetPasswordOtp ::
  "deps \<Rightarrow> string \<Rightarrow> string \<Rightarrow> world \<Rightarrow> (error + unit) \<times> world" where
  "verifyResetPasswordOtp D otp userId w =
     (if \<not> totp_check D otp (config_get D ''otp_secret'') (now w)
      then (Inl (NotFoundException ''Invalid OTP or OTP has expired''), w)
      else
        (case cache_get (otpKey userId) w of
           (otpCached, w1) \<Rightarrow>
             if otpCached \<noteq> Some otp then (Inl (NotFoundException ''Invalid OTP''), w1)
             else (Inr (), cache_del (otpKey userId) w1)))"

definition resetPassword ::
  "deps \<Rightarrow> string \<Rightarrow> string \<Rightarrow> string \<Rightarrow> string \<Rightarrow> world \<Rightarrow> (error + user option) \<times> world" where
  \<comment> \<open>\<^verbatim>\<open>user.id\<close> is read with no check of \<^verbatim>\<open>user\<close>: on \<^verbatim>\<open>null\<close> it throws a
      \<^verbatim>\<open>TypeError\<close>.\<close>
  "resetPassword D salt email otp newPassword w =
     (case validateEmail email of
        Inl e \<Rightarrow> (Inl e, w)
      | Inr _ \<Rightarrow>
          (case findByEmail (toLowerCase email) w of
             (None, w1) \<Rightarrow>
               (Inl (TypeError ''Cannot read properties of null (reading id)''), w1)
           | (Some u, w1) \<Rightarrow>
               (case verifyResetPasswordOtp D otp (user_id u) w1 of
                  (Inl e, w2) \<Rightarrow> (Inl e, w2)
                | (Inr _, w2) \<Rightarrow>
                    (case hashPassword D salt newPassword of
                       Inl e \<Rightarrow> (Inl e, w2)
                     | Inr hashed \<Rightarrow>
                         (case update (user_id u) (SetPassword hashed) w2 of
                            (updated, w3) \<Rightarrow> (Inr updated, w3))))))"

definition validateUser :: "deps \<Rightarrow> string \<Rightarrow> string \<Rightarrow> world \<Rightarrow> (error + user option) \<times> world" where
  "validateUser D email password w =
     (case findByEmail email w of
        (None, w1) \<Rightarrow> (Inr None, w1)
      | (Some u, w1) \<Rightarrow>
          (case comparePassword D password (user_password u) of
             Inl e \<Rightarrow> (Inl e, w1)
           | Inr ok \<Rightarrow> (Inr (if ok then Some (u\<lparr>user_password := None\<rparr>) else None), w1)))"

definition refresh_try :: "deps \<Rightarrow> string \<Rightarrow> world \<Rightarrow> (error + string) \<times> world" where
  \<comment> \<open>the body of the \<^verbatim>\<open>try\<close> block of \<^verbatim>\<open>createAccessTokenFromRefreshToken\<close>\<close>
  "refresh_try D token w =
     (case jwt_decode D token of
        None \<Rightarrow> (Inl (NotFoundException ''Invalid token''), w)
      | Some decoded \<Rightarrow>
          (case findOne (payload_sub decoded) w of
             (None, w1) \<Rightarrow> (Inl (NotFoundException ''User not found''), w1)
           | (Some u, w1) \<Rightarrow>
               (case bcryptCompare D token (user_refreshToken u) of
                  Inl e \<Rightarrow> (Inl e, w1)
                | Inr isRefreshTokenMatched \<Rightarrow>
                    if \<not> isRefreshTokenMatched
                    then (Inl (NotFoundException ''Invalid token''), w1)
                    else (Inr (fst (getTokens D u w1)), w1))))"

definition createAccessTokenFromRefreshToken ::
  "deps \<Rightarrow> string \<Rightarrow> world \<Rightarrow> (error + string) \<times> world" where
  \<comment> \<open>\<^verbatim>\<open>catch (error) { throw new NotFoundException('Invalid token'); }\<close>\<close>
  "createAccessTokenFromRefreshToken D token w =
     (case refresh_try D token w of
        (Inl e, w') \<Rightarrow> (Inl (NotFoundException ''Invalid token''), w')
      | (Inr t, w') \<Rightarrow> (Inr t, w'))"

subsection \<open>Test doubles\<close>

text \<open>
  Stand-ins for the libraries and a small world, on which the theorems below are run.
  The signer is, like an HS256 JWT, a function of the payload, the secret and the issue
  time; the hash is the tagged data; the one-time code changes every 300 seconds.
\<close>

definition test_sign :: "payload \<Rightarrow> jwt_sign_options \<Rightarrow> nat \<Rightarrow> string" where
  "test_sign p opts t =
     payload_sub p @ ''.'' @ payload_role p @ ''.'' @ replicate t CHR ''i'' @ ''.''
       @ (case opt_secret opts of None \<Rightarrow> [] | Some s \<Rightarrow> s)"

definition test_decode :: "string \<Rightarrow> payload option" where
  "test_decode tok =
     (let sub = takeWhile (\<lambda>c. c \<noteq> CHR ''.'') tok;
          rest = drop (Suc (length sub)) tok
      in if length sub < length tok
         then Some \<lparr>payload_sub = sub,
                    payload_role = takeWhile (\<lambda>c. c \<noteq> CHR ''.'') rest\<rparr>
         else None)"

definition test_totp :: "nat \<Rightarrow> string" where
  "test_totp t = (if even (t div 300) then ''111111'' else ''222222'')"

definition test_deps :: deps where
  "test_deps =
     \<lparr>bcrypt_hash = (\<lambda>d salt. ''$2b$10$'' @ d),
      bcrypt_compare = (\<lambda>d h. h = ''$2b$10$'' @ d),
      jwt_signAsync = test_sign,
      jwt_decode = test_decode,
      totp_generate = (\<lambda>secret t. test_totp t),
      totp_check = (\<lambda>otp secret t. otp = test_totp t),
      config_get = (\<lambda>k. Some (''cfg-'' @ k))\<rparr>"

definition test_user :: user where
  "test_user =
     \<lparr>user_id = ''u1'', user_email = ''user@example.com'',
      user_password = Some ''$2b$10$secret'', user_role = ''user'',
      user_refreshToken = None\<rparr>"

definition test_world :: world where
  "test_world =
     \<lparr>users = [test_user], cache_kv = (\<lambda>k. None), cache_sets = (\<lambda>s. {}),
      now = 3, calls = []\<rparr>"

definition test_world_otp :: world where
  \<comment> \<open>\<open>test_world\<close> with a code issued earlier for user \<open>u1\<close>, still live\<close>
  "test_world_otp = test_world\<lparr>cache_kv := (\<lambda>k. None)(''u1:otp'' \<mapsto> (''111111'', 200))\<rparr>"

text \<open>
  A second set of stand-ins, for refresh tokens as the libraries really shape them. A JWT
  starts with its header, 36 characters and a dot, which is the same in every token; the
  payload follows, user id first. \<^verbatim>\<open>bcrypt\<close> reads the first 72 bytes of its input and
  no more. The user has a UUID for an id.
\<close>

definition test_header :: string where
  "test_header = ''eyJhbGciOiJIUzI1NiIsInR5cCI6IkpXVCJ9''"

definition test_sign_jwt :: "payload \<Rightarrow> jwt_sign_options \<Rightarrow> nat \<Rightarrow> string" where
  "test_sign_jwt p opts t = test_header @ ''.'' @ test_sign p opts t"

definition test_decode_jwt :: "string \<Rightarrow> payload option" where
  "test_decode_jwt tok = test_decode (drop 37 tok)"

definition test_deps72 :: deps where
  "test_deps72 =
     test_deps\<lparr>bcrypt_hash := (\<lambda>d salt. ''$2b$10$'' @ take 72 d),
               bcrypt_compare := (\<lambda>d h. h = ''$2b$10$'' @ take 72 d),
               jwt_signAsync := test_sign_jwt,
               jwt_decode := test_decode_jwt\<rparr>"

definition test_user72 :: user where
  "test_user72 =
     \<lparr>user_id = ''123e4567-e89b-12d3-a456-426614174000'', user_email = ''user@example.com'',
      user_password = Some ''$2b$10$secret'', user_role = ''user'',
      user_refreshToken = None\<rparr>"

definition test_world72 :: world where
  "test_world72 = test_world\<lparr>users := [test_user72]\<rparr>"

fun atom_class :: "atom \<Rightarrow> char \<Rightarrow> bool" where
  "atom_class (Atom cls lo hi) = cls"

section \<open>Properties\<close>

subsection \<open>Auxiliary facts\<close>

lemma regex_match_chars:
  "regex_match as s \<Longrightarrow> c \<in> set s \<Longrightarrow> \<exists>a\<in>set as. atom_class a c"
proof (induction as arbitrary: s)
  case Nil
  then show ?case by simp
next
  case (Cons a as)
  obtain cls lo hi where a: "a = Atom cls lo hi" by (cases a)
  from Cons.prems(1) obtain n where
    hd: "list_all cls (take n s)" and tl: "regex_match as (drop n s)"
    by (auto simp: a list_ex_iff)
  from Cons.prems(2) have "c \<in> set (take n s) \<or> c \<in> set (drop n s)"
    by (metis Un_iff append_take_drop_id set_append)
  then show ?case
  proof
    assume "c \<in> set (take n s)"
    with hd have "cls c" by (simp add: list_all_iff)
    then show ?thesis by (simp add: a)
  next
    assume "c \<in> set (drop n s)"
    from Cons.IH [OF tl this] show ?thesis by auto
  qed
qed

lemma upper_not_in_emailRegex:
  "is_upper c \<Longrightarrow> a \<in> set emailRegex \<Longrightarrow> \<not> atom_class a c"
  by (auto simp: emailRegex_def is_upper_def local_class_def domain_class_def in_range_def)

lemma upper_no_match:
  "c \<in> set email \<Longrightarrow> is_upper c \<Longrightarrow> \<not> regex_match emailRegex email"
  using regex_match_chars upper_not_in_emailRegex by blast

lemma test_email_valid: "regex_match emailRegex ''user@example.com''"
  by (simp add: emailRegex_def local_class_def domain_class_def in_range_def)

lemma find_map_pres:
  "(\<And>x. P (g x) = P x) \<Longrightarrow> find P (map g xs) = map_option g (find P xs)"
  by (induction xs) auto

lemma apply_update_id [simp]: "user_id (apply_update upd u) = user_id u"
  by (cases upd) auto

lemma apply_update_email [simp]: "user_email (apply_update upd u) = user_email u"
  by (cases upd) auto

lemma otpKey_inj: "otpKey a = otpKey b \<longleftrightarrow> a = b"
  by (simp add: otpKey_def)

lemma log_call_simps [simp]:
  "users (log_call c w) = users w"
  "cache_kv (log_call c w) = cache_kv w"
  "cache_sets (log_call c w) = cache_sets w"
  "now (log_call c w) = now w"
  "calls (log_call c w) = calls w @ [c]"
  "live (log_call c w) k = live w k"
  by (simp_all add: log_call_def live_def split: option.splits)

lemma live_upd_same [simp]:
  "live (w\<lparr>cache_kv := (cache_kv w)(k \<mapsto> (v, now w + ttl))\<rparr>) k
     = (if 0 < ttl then Some v else None)"
  by (simp add: live_def)

lemma update_users:
  "users (snd (update i upd w))
     = map (\<lambda>u. if user_id u = i then apply_update upd u else u) (users w)"
  by (simp add: update_def Let_def)


lemma find_id_update:
  "find (\<lambda>x. user_id x = j) (users (snd (update i upd w)))
     = map_option (\<lambda>u. if user_id u = i then apply_update upd u else u)
         (find (\<lambda>x. user_id x = j) (users w))"
  unfolding update_users by (rule find_map_pres) simp

lemma find_email_has_id:
  "find (\<lambda>x. user_email x = e) us = Some u \<Longrightarrow>
     \<exists>v. find (\<lambda>x. user_id x = user_id u) us = Some v"
  by (cases "find (\<lambda>x. user_id x = user_id u) us") (auto simp: find_None_iff find_Some_iff)

subsection \<open>Password reset: issuing a code\<close>

lemma forgotPassword_success_iff:
  "(\<exists>otp w'. forgotPassword D email w = (Inr otp, w')) \<longleftrightarrow>
     (regex_match emailRegex email \<and>
      find (\<lambda>x. user_email x = toLowerCase email) (users w) \<noteq> None)"
  by (cases "find (\<lambda>x. user_email x = toLowerCase email) (users w)")
     (simp_all add: forgotPassword_def validateEmail_def findByEmail_def Let_def
       split: prod.splits)

text \<open>
  C6. When the email is well formed and a user is stored under its lower-case form,
  \<^verbatim>\<open>forgotPassword\<close> returns the generated code. The calls it makes are, in order:
  the lookup, \<^verbatim>\<open>exists\<close> on the key \<^verbatim>\<open>{userId}:otp\<close>, \<^verbatim>\<open>del\<close> of that key when
  an entry was live, and one \<^verbatim>\<open>set\<close> of the key to the new code with a time-to-live of
  300. Afterwards the cache differs from before at that key only, where it holds the new
  code until 300 seconds from now; the key determines the user.
\<close>

theorem forgotPassword_stores_one_otp:
  assumes valid: "regex_match emailRegex email"
      and found: "find (\<lambda>x. user_email x = toLowerCase email) (users w) = Some u"
  shows "\<exists>w'. forgotPassword D email w
                 = (Inr (totp_generate D (config_get D ''otp_secret'') (now w)), w') \<and>
     calls w' = calls w
        @ [FindByEmail (toLowerCase email), CacheExists (otpKey (user_id u))]
        @ (if live w (otpKey (user_id u)) \<noteq> None then [CacheDel (otpKey (user_id u))] else [])
        @ [CacheSet (otpKey (user_id u))
             (totp_generate D (config_get D ''otp_secret'') (now w)) 300] \<and>
     cache_kv w' = (cache_kv w)(otpKey (user_id u) \<mapsto>
                      (totp_generate D (config_get D ''otp_secret'') (now w), now w + 300)) \<and>
     live w' (otpKey (user_id u)) = Some (totp_generate D (config_get D ''otp_secret'') (now w)) \<and>
     (otpKey (user_id u) = user_id u @ '':otp'') \<and>
     (\<forall>i. (otpKey i = otpKey (user_id u)) = (i = user_id u)) \<and>
     users w' = users w \<and> cache_sets w' = cache_sets w \<and> now w' = now w"
  using valid found
  by (simp add: forgotPassword_def validateEmail_def findByEmail_def
      generateResetPasswordOtp_def cache_exists_def cache_del_def cache_set_def Let_def
      otpKey_inj)
    (simp add: otpKey_def)

theorem forgotPassword_stores_one_otp_witness:
  "regex_match emailRegex ''user@example.com'' \<and>
   find (\<lambda>x. user_email x = toLowerCase ''user@example.com'') (users test_world_otp)
     = Some test_user \<and>
   fst (forgotPassword test_deps ''user@example.com'' test_world_otp) = Inr ''111111'' \<and>
   calls (snd (forgotPassword test_deps ''user@example.com'' test_world_otp))
     = [FindByEmail ''user@example.com'', CacheExists ''u1:otp'', CacheDel ''u1:otp'',
        CacheSet ''u1:otp'' ''111111'' 300] \<and>
   cache_kv (snd (forgotPassword test_deps ''user@example.com'' test_world_otp)) ''u1:otp''
     = Some (''111111'', 303)"
proof -
  have low: "toLowerCase ''user@example.com'' = ''user@example.com''"
    by code_simp
  have found: "find (\<lambda>x. user_email x = toLowerCase ''user@example.com'') (users test_world_otp)
                 = Some test_user"
    by (simp add: low test_world_otp_def test_world_def test_user_def)
  have lv: "live test_world_otp ''u1:otp'' = Some ''111111''"
    by (simp add: live_def test_world_otp_def test_world_def)
  from forgotPassword_stores_one_otp [OF test_email_valid found, of test_deps]
  obtain w' where
    r: "forgotPassword test_deps ''user@example.com'' test_world_otp
          = (Inr (totp_generate test_deps (config_get test_deps ''otp_secret'')
                    (now test_world_otp)), w')"
    and c: "calls w' = calls test_world_otp
        @ [FindByEmail (toLowerCase ''user@example.com''),
           CacheExists (otpKey (user_id test_user))]
        @ (if live test_world_otp (otpKey (user_id test_user)) \<noteq> None
           then [CacheDel (otpKey (user_id test_user))] else [])
        @ [CacheSet (otpKey (user_id test_user))
             (totp_generate test_deps (config_get test_deps ''otp_secret'')
                (now test_world_otp)) 300]"
    and k: "cache_kv w' = (cache_kv test_world_otp)(otpKey (user_id test_user) \<mapsto>
              (totp_generate test_deps (config_get test_deps ''otp_secret'')
                 (now test_world_otp), now test_world_otp + 300))"
    by blast
  have g: "totp_generate test_deps (config_get test_deps ''otp_secret'') 3 = ''111111''"
    by (simp add: test_deps_def test_totp_def)
  have n: "now test_world_otp = 3" "calls test_world_otp = []"
    by (simp_all add: test_world_otp_def test_world_def)
  have key: "otpKey (user_id test_user) = ''u1:otp''"
    by (simp add: otpKey_def test_user_def)
  show ?thesis
    using test_email_valid found
    by (simp add: r c k g lv low key n)
qed

subsection \<open>Email validation\<close>

text \<open>
  C7. For every string that does not match the email pattern (such as
  \<^verbatim>\<open>not-an-email\<close>), \<^verbatim>\<open>forgotPassword\<close> fails with the exception thrown by
  \<^verbatim>\<open>validateEmail\<close> and leaves the world as it was: in particular the log of calls to
  the credential store and to the cache is unchanged, so no \<^verbatim>\<open>findByEmail\<close> was made.
\<close>

theorem forgotPassword_malformed_email:
  "\<not> regex_match emailRegex email \<Longrightarrow>
     forgotPassword D email w = (Inl (NotFoundException ''Invalid email''), w)"
  by (simp add: forgotPassword_def validateEmail_def)

theorem forgotPassword_malformed_email_witness:
  "\<not> regex_match emailRegex ''not-an-email'' \<and>
   forgotPassword test_deps ''not-an-email'' test_world
     = (Inl (NotFoundException ''Invalid email''), test_world) \<and>
   calls (snd (forgotPassword test_deps ''not-an-email'' test_world)) = []"
proof -
  have h: "\<not> regex_match emailRegex ''not-an-email''"
    by (simp add: emailRegex_def local_class_def domain_class_def in_range_def)
  from forgotPassword_malformed_email [OF h, of test_deps test_world] h
  show ?thesis by (simp add: test_world_def)
qed

text \<open>
  C10. An email with an upper-case letter A-Z never matches the pattern, whose classes
  hold lower-case letters only. So \<^verbatim>\<open>forgotPassword\<close> and \<^verbatim>\<open>resetPassword\<close> both
  fail on it with \<^verbatim>\<open>NotFoundException('Invalid email')\<close> and make no call, whatever the
  user table holds: the lower-casing of the email comes after the validation.
\<close>

theorem uppercase_email_rejected:
  assumes "c \<in> set email" and "is_upper c"
  shows "forgotPassword D email w = (Inl (NotFoundException ''Invalid email''), w) \<and>
         resetPassword D salt email otp newPassword w
           = (Inl (NotFoundException ''Invalid email''), w)"
  using upper_no_match [OF assms]
  by (simp add: forgotPassword_def resetPassword_def validateEmail_def)

theorem uppercase_email_rejected_witness:
  "CHR ''U'' \<in> set ''User@Example.com'' \<and> is_upper CHR ''U'' \<and>
   find (\<lambda>x. user_email x = toLowerCase ''User@Example.com'') (users test_world)
     = Some test_user \<and>
   forgotPassword test_deps ''User@Example.com'' test_world
     = (Inl (NotFoundException ''Invalid email''), test_world) \<and>
   resetPassword test_deps ''salt'' ''User@Example.com'' ''111111'' ''new-password'' test_world
     = (Inl (NotFoundException ''Invalid email''), test_world)"
proof -
  have m: "CHR ''U'' \<in> set ''User@Example.com''" by simp
  have u: "is_upper CHR ''U''" by (simp add: is_upper_def in_range_def)
  have low: "toLowerCase ''User@Example.com'' = ''user@example.com''"
    by code_simp
  have f: "find (\<lambda>x. user_email x = toLowerCase ''User@Example.com'') (users test_world)
             = Some test_user"
    by (simp add: low test_world_def test_user_def)
  from uppercase_email_rejected [OF m u, of test_deps test_world "''salt''" "''111111''"
      "''new-password''"] m u f
  show ?thesis by simp
qed

lemma update_frame [simp]:
  "cache_kv (snd (update i upd w)) = cache_kv w"
  "cache_sets (snd (update i upd w)) = cache_sets w"
  "now (snd (update i upd w)) = now w"
  "calls (snd (update i upd w)) = calls w @ [Update i upd]"
  by (simp_all add: update_def Let_def)

lemma verify_cases:
  "verifyResetPasswordOtp D otp uid w =
     (if \<not> totp_check D otp (config_get D ''otp_secret'') (now w)
      then (Inl (NotFoundException ''Invalid OTP or OTP has expired''), w)
      else if live w (otpKey uid) \<noteq> Some otp
      then (Inl (NotFoundException ''Invalid OTP''), log_call (CacheGet (otpKey uid)) w)
      else (Inr (), cache_del (otpKey uid) (log_call (CacheGet (otpKey uid)) w)))"
  by (simp add: verifyResetPasswordOtp_def cache_get_def)

lemma resetPassword_found:
  assumes "regex_match emailRegex email"
      and "find (\<lambda>x. user_email x = toLowerCase email) (users w) = Some u"
  shows "resetPassword D salt email otp pw w =
     (case verifyResetPasswordOtp D otp (user_id u) (log_call (FindByEmail (toLowerCase email)) w) of
        (Inl e, w2) \<Rightarrow> (Inl e, w2)
      | (Inr _, w2) \<Rightarrow>
          if pw = [] then (Inl (Error ''Password is required for hashing.''), w2)
          else (Inr (fst (update (user_id u) (SetPassword (bcrypt_hash D pw salt)) w2)),
                snd (update (user_id u) (SetPassword (bcrypt_hash D pw salt)) w2)))"
  using assms
  by (simp add: resetPassword_def validateEmail_def findByEmail_def hashPassword_def
      split: prod.splits sum.splits)





lemma test_world_otp_found:
  "find (\<lambda>x. user_email x = toLowerCase ''user@example.com'') (users test_world_otp)
     = Some test_user"
proof -
  have "toLowerCase ''user@example.com'' = ''user@example.com''" by code_simp
  then show ?thesis by (simp add: test_world_otp_def test_world_def test_user_def)
qed

lemma test_world_otp_live: "live test_world_otp (otpKey (user_id test_user)) = Some ''111111''"
  by (simp add: live_def test_world_otp_def test_world_def test_user_def otpKey_def)

lemma test_world_otp_check:
  "totp_check test_deps ''111111'' (config_get test_deps ''otp_secret'') (now test_world_otp)"
  by (simp add: test_deps_def test_totp_def test_world_otp_def test_world_def)

subsection \<open>Password reset: using a code\<close>



lemma update_result:
  "fst (update i upd w) = find (\<lambda>x. user_id x = i) (users (snd (update i upd w)))"
  by (simp add: update_def Let_def)

text \<open>
  C9. A successful \<^verbatim>\<open>resetPassword\<close> returns what \<^verbatim>\<open>usersService.update\<close> returns,
  untouched: the stored record of the user, whose password field holds the hash of the
  new password. Nothing clears the field, as \<^verbatim>\<open>signup\<close> and \<^verbatim>\<open>validateUser\<close> do.
\<close>

theorem resetPassword_returns_password_hash:
  assumes ok: "resetPassword D salt email otp pw w = (Inr r, w')"
  shows "\<exists>u. r = Some u \<and> user_password u = Some (bcrypt_hash D pw salt) \<and>
             find (\<lambda>x. user_id x = user_id u) (users w') = Some u"
proof -
  from ok have valid: "regex_match emailRegex email"
    by (auto simp: resetPassword_def validateEmail_def split: if_splits)
  from ok valid obtain u0 where
    found: "find (\<lambda>x. user_email x = toLowerCase email) (users w) = Some u0"
    by (cases "find (\<lambda>x. user_email x = toLowerCase email) (users w)")
       (auto simp: resetPassword_def validateEmail_def findByEmail_def)
  let ?h = "bcrypt_hash D pw salt"
  let ?w2 = "cache_del (otpKey (user_id u0))
               (log_call (CacheGet (otpKey (user_id u0)))
                  (log_call (FindByEmail (toLowerCase email)) w))"
  let ?g = "\<lambda>x. if user_id x = user_id u0 then apply_update (SetPassword ?h) x else x"
  from ok have res: "r = fst (update (user_id u0) (SetPassword ?h) ?w2)"
    and w': "w' = snd (update (user_id u0) (SetPassword ?h) ?w2)"
    by (auto simp: resetPassword_found [OF valid found] verify_cases split: if_splits)
  from find_email_has_id [OF found] obtain v where
    v: "find (\<lambda>x. user_id x = user_id u0) (users w) = Some v" by blast
  then have vid: "user_id v = user_id u0" by (auto simp: find_Some_iff)
  have us: "users ?w2 = users w" by (simp add: cache_del_def)
  have stored: "find (\<lambda>x. user_id x = user_id u0) (users w') = Some (?g v)"
    by (simp add: w' find_id_update us v del: cache_del_def)
  have r: "r = Some (?g v)"
    using stored by (simp add: res w' update_result)
  have "user_password (?g v) = Some ?h" and "user_id (?g v) = user_id u0"
    using vid by simp_all
  with r stored show ?thesis by simp
qed

theorem resetPassword_returns_password_hash_witness:
  "resetPassword test_deps ''salt'' ''user@example.com'' ''111111'' ''new-password'' test_world_otp
     = (Inr (Some (test_user\<lparr>user_password := Some ''$2b$10$new-password''\<rparr>)),
        snd (resetPassword test_deps ''salt'' ''user@example.com'' ''111111'' ''new-password''
               test_world_otp)) \<and>
   (\<exists>u. Some (test_user\<lparr>user_password := Some ''$2b$10$new-password''\<rparr>) = Some u \<and>
        user_password u = Some (bcrypt_hash test_deps ''new-password'' ''salt''))"
proof -
  have e: "resetPassword test_deps ''salt'' ''user@example.com'' ''111111'' ''new-password''
             test_world_otp
     = (Inr (Some (test_user\<lparr>user_password := Some ''$2b$10$new-password''\<rparr>)),
        snd (resetPassword test_deps ''salt'' ''user@example.com'' ''111111'' ''new-password''
               test_world_otp))"
    using test_world_otp_check test_world_otp_live
    by (simp add: resetPassword_found [OF test_email_valid test_world_otp_found] verify_cases
        update_result find_id_update cache_del_def)
      (auto simp: test_world_otp_def test_world_def test_user_def test_deps_def)
  from resetPassword_returns_password_hash [OF e] e show ?thesis by blast
qed

lemma refresh_eval:
  "createAccessTokenFromRefreshToken D tok w =
     (case jwt_decode D tok of
        None \<Rightarrow> (Inl (NotFoundException ''Invalid token''), w)
      | Some p \<Rightarrow>
          (case find (\<lambda>x. user_id x = payload_sub p) (users w) of
             None \<Rightarrow> (Inl (NotFoundException ''Invalid token''), log_call (FindOne (payload_sub p)) w)
           | Some u \<Rightarrow>
               (case user_refreshToken u of
                  None \<Rightarrow> (Inl (NotFoundException ''Invalid token''),
                            log_call (FindOne (payload_sub p)) w)
                | Some h \<Rightarrow>
                    if bcrypt_compare D tok h
                    then (Inr (jwt_signAsync D
                                 \<lparr>payload_sub = user_id u, payload_role = user_role u\<rparr>
                                 (getTokenOption D ''access'') (now w)),
                          log_call (FindOne (payload_sub p)) w)
                    else (Inl (NotFoundException ''Invalid token''),
                          log_call (FindOne (payload_sub p)) w))))"
  by (simp add: createAccessTokenFromRefreshToken_def refresh_try_def findOne_def
      bcryptCompare_def getTokens_def Let_def split: option.splits)

lemma refresh_accepts_iff:
  "(\<exists>a. fst (createAccessTokenFromRefreshToken D tok w) = Inr a) \<longleftrightarrow>
     (\<exists>p u h. jwt_decode D tok = Some p \<and>
        find (\<lambda>x. user_id x = payload_sub p) (users w) = Some u \<and>
        user_refreshToken u = Some h \<and> bcrypt_compare D tok h)"
  by (auto simp: refresh_eval split: option.splits)

lemma refresh_rejects:
  "(\<exists>a. fst (createAccessTokenFromRefreshToken D tok w) = Inr a) \<or>
   fst (createAccessTokenFromRefreshToken D tok w) = Inl (NotFoundException ''Invalid token'')"
  by (auto simp: refresh_eval split: option.splits)

subsection \<open>Refresh tokens\<close>

text \<open>
  C8. A successful \<^verbatim>\<open>createAccessTokenFromRefreshToken\<close> returns one token, signed
  with the access options for the stored user. It makes a single call, the read
  \<^verbatim>\<open>findOne\<close>: the user table (so the stored refresh-token hash) and the cache are
  as before. The same refresh token is accepted again afterwards, at any time.
\<close>

theorem refresh_leaves_record:
  assumes ok: "createAccessTokenFromRefreshToken D tok w = (Inr a, w')"
  shows "(\<exists>u::user. a = jwt_signAsync D \<lparr>payload_sub = user_id u, payload_role = user_role u\<rparr>
                     (getTokenOption D ''access'') (now w)) \<and>
         users w' = users w \<and> cache_kv w' = cache_kv w \<and> cache_sets w' = cache_sets w \<and>
         (\<exists>sub. calls w' = calls w @ [FindOne sub]) \<and>
         (\<forall>t. \<exists>a'. fst (createAccessTokenFromRefreshToken D tok (w'\<lparr>now := t\<rparr>)) = Inr a')"
proof -
  from ok obtain p where p: "jwt_decode D tok = Some p"
    by (cases "jwt_decode D tok") (simp_all add: refresh_eval)
  from ok p obtain u1 where u1: "find (\<lambda>x. user_id x = payload_sub p) (users w) = Some u1"
    by (cases "find (\<lambda>x. user_id x = payload_sub p) (users w)") (simp_all add: refresh_eval)
  from ok p u1 obtain h where h: "user_refreshToken u1 = Some h"
    by (cases "user_refreshToken u1") (simp_all add: refresh_eval)
  from ok have m: "bcrypt_compare D tok h"
    by (simp add: refresh_eval p u1 h split: if_splits)
  have "createAccessTokenFromRefreshToken D tok w
          = (Inr (jwt_signAsync D \<lparr>payload_sub = user_id u1, payload_role = user_role u1\<rparr>
                    (getTokenOption D ''access'') (now w)),
             log_call (FindOne (payload_sub p)) w)"
    by (simp add: refresh_eval p u1 h m)
  from trans [OF ok [symmetric] this]
  have a: "a = jwt_signAsync D \<lparr>payload_sub = user_id u1, payload_role = user_role u1\<rparr>
                 (getTokenOption D ''access'') (now w)"
    and w': "w' = log_call (FindOne (payload_sub p)) w"
    by (rule Pair_inject, simp)+
  from a have tok: "\<exists>u::user. a = jwt_signAsync D
      \<lparr>payload_sub = user_id u, payload_role = user_role u\<rparr>
      (getTokenOption D ''access'') (now w)"
    by (rule exI [where x = u1])
  have again: "\<exists>a'. fst (createAccessTokenFromRefreshToken D tok (w'\<lparr>now := t\<rparr>)) = Inr a'"
    for t
    by (simp add: refresh_eval p u1 h m w')
  from tok again show ?thesis by (simp add: w')
qed

lemma signin_world:
  "snd (signin D salt u w)
     = snd (update (user_id u)
              (SetRefreshToken (Some (bcrypt_hash D (refreshToken (fst (signin D salt u w))) salt))) w)"
  by (simp add: signin_def setCurrentRefreshToken_def getTokens_def Let_def)

lemma signin_refreshToken:
  "refreshToken (fst (signin D salt u w))
     = jwt_signAsync D \<lparr>payload_sub = user_id u, payload_role = user_role u\<rparr>
         (getTokenOption D ''refresh'') (now w)"
  by (simp add: signin_def getTokens_def Let_def)

lemma signin_now [simp]: "now (snd (signin D salt u w)) = now w"
  by (simp add: signin_world update_def Let_def)

lemma find_id_after_signin:
  assumes "find (\<lambda>x. user_id x = user_id u) (users w) = Some v"
  shows "find (\<lambda>x. user_id x = user_id u) (users (snd (signin D salt u w)))
           = Some (v\<lparr>user_refreshToken :=
                       Some (bcrypt_hash D (refreshToken (fst (signin D salt u w))) salt)\<rparr>)"
proof -
  from assms have "user_id v = user_id u" by (auto simp: find_Some_iff)
  then show ?thesis by (simp add: signin_world find_id_update assms)
qed


lemma users_after_signin:
  "x \<in> set (users (snd (signin D salt u w))) \<Longrightarrow> user_id x = user_id u \<Longrightarrow>
     user_refreshToken x
       = Some (bcrypt_hash D (refreshToken (fst (signin D salt u w))) salt)"
  by (auto simp: signin_world update_users split: if_splits)

text \<open>
  C1. Each \<^verbatim>\<open>signin\<close> overwrites the stored refresh-token hash, and
  \<^verbatim>\<open>createAccessTokenFromRefreshToken\<close> compares the presented token with the stored
  hash: the code means to accept the latest token only. It does not. \<^verbatim>\<open>bcrypt\<close> is
  given the whole token but reads its first 72 bytes, and the tokens of one user begin
  alike (the header, then the user id). So whenever \<^verbatim>\<open>bcrypt.compare\<close> is decided by
  the first 72 characters and the two tokens agree on them, then after the second
  \<^verbatim>\<open>signin\<close> every record of the user holds the hash of the second token only, and yet
  the first token is accepted, as is any token that decodes to this user and begins the
  same way. Besides, two calls that read the same clock issue the same token.
\<close>

theorem signin_twice_superseded_accepted:
  assumes prefix: "\<forall>d d' s. bcrypt_compare D d (bcrypt_hash D d' s) = (take 72 d = take 72 d')"
      and dec: "\<forall>t. jwt_decode D (jwt_signAsync D
                       \<lparr>payload_sub = user_id u, payload_role = user_role u\<rparr>
                       (getTokenOption D ''refresh'') t)
                   = Some \<lparr>payload_sub = user_id u, payload_role = user_role u\<rparr>"
      and stored: "find (\<lambda>x. user_id x = user_id u) (users w) = Some v"
      and first: "signin D s1 u w = (r1, w1)"
      and second: "signin D s2 u (w1\<lparr>now := t2\<rparr>) = (r2, w2)"
      and share: "take 72 (refreshToken r1) = take 72 (refreshToken r2)"
  shows "(\<forall>x\<in>set (users w2). user_id x = user_id u \<longrightarrow>
            user_refreshToken x = Some (bcrypt_hash D (refreshToken r2) s2)) \<and>
         (\<exists>a. fst (createAccessTokenFromRefreshToken D (refreshToken r1) (w2\<lparr>now := t3\<rparr>))
                 = Inr a) \<and>
         (\<forall>tok p. jwt_decode D tok = Some p \<and> payload_sub p = user_id u \<and>
                  take 72 tok = take 72 (refreshToken r2) \<longrightarrow>
            (\<exists>a. fst (createAccessTokenFromRefreshToken D tok (w2\<lparr>now := t3\<rparr>)) = Inr a)) \<and>
         (t2 = now w \<longrightarrow> refreshToken r1 = refreshToken r2)"
proof -
  let ?p = "\<lparr>payload_sub = user_id u, payload_role = user_role u\<rparr>"
  let ?h2 = "bcrypt_hash D (refreshToken r2) s2"
  let ?v2 = "v\<lparr>user_refreshToken := Some ?h2\<rparr>"
  from first have r1: "r1 = fst (signin D s1 u w)" and w1: "w1 = snd (signin D s1 u w)"
    by simp_all
  from second have r2: "r2 = fst (signin D s2 u (w1\<lparr>now := t2\<rparr>))"
    and w2: "w2 = snd (signin D s2 u (w1\<lparr>now := t2\<rparr>))"
    by simp_all
  have f1: "find (\<lambda>x. user_id x = user_id u) (users (w1\<lparr>now := t2\<rparr>))
              = Some (v\<lparr>user_refreshToken := Some (bcrypt_hash D (refreshToken r1) s1)\<rparr>)"
    by (simp add: w1 r1 find_id_after_signin [OF stored])
  have f2: "find (\<lambda>x. user_id x = user_id u) (users w2) = Some ?v2"
    by (simp add: w2 r2 find_id_after_signin [OF f1])
  have all2: "\<forall>x\<in>set (users w2). user_id x = user_id u \<longrightarrow> user_refreshToken x = Some ?h2"
    by (simp add: w2 r2 users_after_signin)
  have d1: "jwt_decode D (refreshToken r1) = Some ?p"
    using dec by (simp add: r1 signin_refreshToken)
  have acc: "\<exists>a. fst (createAccessTokenFromRefreshToken D tok (w2\<lparr>now := t3\<rparr>)) = Inr a"
    if "jwt_decode D tok = Some p" "payload_sub p = user_id u"
       "take 72 tok = take 72 (refreshToken r2)"
    for tok p
    using that f2 prefix by (simp add: refresh_eval)
  have old: "\<exists>a. fst (createAccessTokenFromRefreshToken D (refreshToken r1) (w2\<lparr>now := t3\<rparr>))
                = Inr a"
    by (rule acc [OF d1 _ share]) simp
  have same: "refreshToken r1 = refreshToken r2" if "t2 = now w"
    using that by (simp add: r1 r2 w1 signin_refreshToken)
  from all2 old acc same show ?thesis by blast
qed

lemma test_world_stored:
  "find (\<lambda>x. user_id x = user_id test_user) (users test_world) = Some test_user"
  by (simp add: test_world_def)

lemma test_refresh_token:
  "now w = 3 \<Longrightarrow>
   refreshToken (fst (signin test_deps salt test_user w)) = ''u1.user.iii.cfg-refresh_secret''"
  "now w = 4 \<Longrightarrow>
   refreshToken (fst (signin test_deps salt test_user w)) = ''u1.user.iiii.cfg-refresh_secret''"
  by (simp_all add: signin_refreshToken test_deps_def test_sign_def getTokenOption_def
      test_user_def eval_nat_numeral)

lemma test72_prefix:
  "\<forall>d d' s. bcrypt_compare test_deps72 d (bcrypt_hash test_deps72 d' s)
               = (take 72 d = take 72 d')"
  by (auto simp: test_deps72_def)

lemma test72_roundtrip:
  "\<forall>t. jwt_decode test_deps72 (jwt_signAsync test_deps72
           \<lparr>payload_sub = user_id test_user72, payload_role = user_role test_user72\<rparr>
           (getTokenOption test_deps72 ''refresh'') t)
       = Some \<lparr>payload_sub = user_id test_user72, payload_role = user_role test_user72\<rparr>"
  by (simp add: test_deps72_def test_sign_jwt_def test_decode_jwt_def test_header_def
      test_sign_def test_decode_def test_user72_def Let_def)

lemma test72_stored:
  "find (\<lambda>x. user_id x = user_id test_user72) (users test_world72) = Some test_user72"
  by (simp add: test_world72_def)

lemma test72_refresh_token:
  "now w = 3 \<Longrightarrow>
   refreshToken (fst (signin test_deps72 salt test_user72 w))
     = ''eyJhbGciOiJIUzI1NiIsInR5cCI6IkpXVCJ9.123e4567-e89b-12d3-a456-426614174000.user.iii.cfg-refresh_secret''"
  "now w = 4 \<Longrightarrow>
   refreshToken (fst (signin test_deps72 salt test_user72 w))
     = ''eyJhbGciOiJIUzI1NiIsInR5cCI6IkpXVCJ9.123e4567-e89b-12d3-a456-426614174000.user.iiii.cfg-refresh_secret''"
  by (simp_all add: signin_refreshToken test_deps72_def test_deps_def test_sign_jwt_def
      test_header_def test_sign_def getTokenOption_def test_user72_def eval_nat_numeral)

theorem signin_twice_superseded_accepted_witness:
  "(\<forall>d d' s. bcrypt_compare test_deps72 d (bcrypt_hash test_deps72 d' s)
                = (take 72 d = take 72 d')) \<and>
   find (\<lambda>x. user_id x = user_id test_user72) (users test_world72) = Some test_user72 \<and>
   refreshToken (fst (signin test_deps72 ''s1'' test_user72 test_world72))
     = ''eyJhbGciOiJIUzI1NiIsInR5cCI6IkpXVCJ9.123e4567-e89b-12d3-a456-426614174000.user.iii.cfg-refresh_secret'' \<and>
   refreshToken (fst (signin test_deps72 ''s2'' test_user72
                        ((snd (signin test_deps72 ''s1'' test_user72 test_world72))\<lparr>now := 4\<rparr>)))
     = ''eyJhbGciOiJIUzI1NiIsInR5cCI6IkpXVCJ9.123e4567-e89b-12d3-a456-426614174000.user.iiii.cfg-refresh_secret'' \<and>
   refreshToken (fst (signin test_deps72 ''s1'' test_user72 test_world72))
     \<noteq> refreshToken (fst (signin test_deps72 ''s2'' test_user72
                        ((snd (signin test_deps72 ''s1'' test_user72 test_world72))\<lparr>now := 4\<rparr>))) \<and>
   (\<exists>a. fst (createAccessTokenFromRefreshToken test_deps72
          (refreshToken (fst (signin test_deps72 ''s1'' test_user72 test_world72)))
          ((snd (signin test_deps72 ''s2'' test_user72
                   ((snd (signin test_deps72 ''s1'' test_user72 test_world72))\<lparr>now := 4\<rparr>)))
             \<lparr>now := 5\<rparr>)) = Inr a)"
proof -
  let ?s1 = "signin test_deps72 ''s1'' test_user72 test_world72"
  let ?s2 = "signin test_deps72 ''s2'' test_user72 ((snd ?s1)\<lparr>now := 4\<rparr>)"
  have first: "?s1 = (fst ?s1, snd ?s1)" by simp
  have second: "?s2 = (fst ?s2, snd ?s2)" by simp
  have t1: "refreshToken (fst ?s1)
      = ''eyJhbGciOiJIUzI1NiIsInR5cCI6IkpXVCJ9.123e4567-e89b-12d3-a456-426614174000.user.iii.cfg-refresh_secret''"
    by (rule test72_refresh_token(1)) (simp add: test_world72_def test_world_def)
  have t2: "refreshToken (fst ?s2)
      = ''eyJhbGciOiJIUzI1NiIsInR5cCI6IkpXVCJ9.123e4567-e89b-12d3-a456-426614174000.user.iiii.cfg-refresh_secret''"
    by (rule test72_refresh_token(2)) simp
  have share: "take 72 (refreshToken (fst ?s1)) = take 72 (refreshToken (fst ?s2))"
    by (simp add: t1 t2)
  have differ: "refreshToken (fst ?s1) \<noteq> refreshToken (fst ?s2)"
    by (simp add: t1 t2)
  from signin_twice_superseded_accepted [OF test72_prefix test72_roundtrip test72_stored
      first second share, of 5]
  have acc: "\<exists>a. fst (createAccessTokenFromRefreshToken test_deps72 (refreshToken (fst ?s1))
                       ((snd ?s2)\<lparr>now := 5\<rparr>)) = Inr a"
    by blast
  from acc differ t1 t2 test72_prefix test72_stored show ?thesis by blast
qed

text \<open>
  A run on one clock reading: two calls of \<^verbatim>\<open>signin\<close> issue the same refresh token,
  which is accepted after the second.
\<close>

lemma signin_twice_same_clock:
  "refreshToken (fst (signin test_deps ''s1'' test_user test_world))
     = refreshToken (fst (signin test_deps ''s2'' test_user
                            (snd (signin test_deps ''s1'' test_user test_world)))) \<and>
   fst (createAccessTokenFromRefreshToken test_deps
          (refreshToken (fst (signin test_deps ''s1'' test_user test_world)))
          (snd (signin test_deps ''s2'' test_user
                  (snd (signin test_deps ''s1'' test_user test_world)))))
     = Inr ''u1.user.iii.cfg-access_secret''"
proof -
  let ?s1 = "signin test_deps ''s1'' test_user test_world"
  let ?s2 = "signin test_deps ''s2'' test_user (snd ?s1)"
  have n: "now (snd ?s1) = 3" by (simp add: test_world_def)
  have t1: "refreshToken (fst ?s1) = ''u1.user.iii.cfg-refresh_secret''"
    by (rule test_refresh_token(1)) (simp add: test_world_def)
  have t2: "refreshToken (fst ?s2) = ''u1.user.iii.cfg-refresh_secret''"
    by (rule test_refresh_token(1)) (rule n)
  have f1: "find (\<lambda>x. user_id x = user_id test_user) (users (snd ?s1))
              = Some (test_user\<lparr>user_refreshToken :=
                   Some (bcrypt_hash test_deps (refreshToken (fst ?s1)) ''s1'')\<rparr>)"
    by (rule find_id_after_signin [OF test_world_stored])
  have f2: "find (\<lambda>x. user_id x = ''u1'') (users (snd ?s2))
              = Some (test_user\<lparr>user_refreshToken :=
                   Some (''$2b$10$u1.user.iii.cfg-refresh_secret'')\<rparr>)"
    using find_id_after_signin [OF f1, of test_deps "''s2''"]
    by (simp add: t2) (simp add: test_user_def test_deps_def)
  have d: "jwt_decode test_deps ''u1.user.iii.cfg-refresh_secret''
             = Some \<lparr>payload_sub = ''u1'', payload_role = ''user''\<rparr>"
    by (simp add: test_deps_def test_decode_def Let_def)
  have "fst (createAccessTokenFromRefreshToken test_deps ''u1.user.iii.cfg-refresh_secret''
               (snd ?s2)) = Inr ''u1.user.iii.cfg-access_secret''"
    by (simp add: refresh_eval d f2 n)
       (simp add: test_deps_def test_sign_def test_user_def test_world_def getTokenOption_def
           eval_nat_numeral)
  then show ?thesis by (simp add: t1 t2)
qed

subsection \<open>Refresh tokens: a run\<close>

theorem refresh_leaves_record_witness:
  "createAccessTokenFromRefreshToken test_deps ''u1.user.iii.cfg-refresh_secret''
       (snd (signin test_deps ''s1'' test_user test_world))
     = (Inr ''u1.user.iii.cfg-access_secret'',
        snd (createAccessTokenFromRefreshToken test_deps ''u1.user.iii.cfg-refresh_secret''
               (snd (signin test_deps ''s1'' test_user test_world)))) \<and>
   users (snd (createAccessTokenFromRefreshToken test_deps ''u1.user.iii.cfg-refresh_secret''
                 (snd (signin test_deps ''s1'' test_user test_world))))
     = users (snd (signin test_deps ''s1'' test_user test_world)) \<and>
   (\<exists>a'. fst (createAccessTokenFromRefreshToken test_deps ''u1.user.iii.cfg-refresh_secret''
                ((snd (createAccessTokenFromRefreshToken test_deps
                         ''u1.user.iii.cfg-refresh_secret''
                         (snd (signin test_deps ''s1'' test_user test_world))))\<lparr>now := 900\<rparr>))
           = Inr a')"
proof -
  let ?s1 = "signin test_deps ''s1'' test_user test_world"
  let ?c = "createAccessTokenFromRefreshToken test_deps ''u1.user.iii.cfg-refresh_secret''
              (snd ?s1)"
  have n: "now (snd ?s1) = 3" by (simp add: test_world_def)
  have t1: "refreshToken (fst ?s1) = ''u1.user.iii.cfg-refresh_secret''"
    by (rule test_refresh_token(1)) (simp add: test_world_def)
  have f1: "find (\<lambda>x. user_id x = ''u1'') (users (snd ?s1))
              = Some (test_user\<lparr>user_refreshToken :=
                   Some (''$2b$10$u1.user.iii.cfg-refresh_secret'')\<rparr>)"
    using find_id_after_signin [OF test_world_stored, of test_deps "''s1''"]
    by (simp add: t1) (simp add: test_user_def test_deps_def)
  have d: "jwt_decode test_deps ''u1.user.iii.cfg-refresh_secret''
             = Some \<lparr>payload_sub = ''u1'', payload_role = ''user''\<rparr>"
    by (simp add: test_deps_def test_decode_def Let_def)
  have "fst ?c = Inr ''u1.user.iii.cfg-access_secret''"
    by (simp add: refresh_eval d f1 n)
       (simp add: test_deps_def test_sign_def test_user_def test_world_def getTokenOption_def
           eval_nat_numeral)
  then have e: "?c = (Inr ''u1.user.iii.cfg-access_secret'', snd ?c)"
    by (simp add: prod_eq_iff)
  from refresh_leaves_record [OF e] e show ?thesis by blast
qed

subsection \<open>Sign-up\<close>

text \<open>
  C5 (as amended). When a record with the given email exists, \<^verbatim>\<open>signup\<close> fails with
  \<^verbatim>\<open>ConflictException\<close> and the user table is as before. When none exists and the
  password is not empty, it succeeds: one record is added, whose password field is
  the bcrypt hash of the password, and the user returned is that record with the password
  field cleared. When none exists and the password is empty, \<^verbatim>\<open>hashPassword\<close> throws
  and no record is added.
\<close>

theorem signup_conflict_or_created:
  "(find (\<lambda>x. user_email x = dto_email dto) (users w) \<noteq> None \<longrightarrow>
      fst (signup D salt new_id dto w) = Inl (ConflictException ''User already exists'') \<and>
      users (snd (signup D salt new_id dto w)) = users w \<and>
      calls (snd (signup D salt new_id dto w)) = calls w @ [FindByEmail (dto_email dto)]) \<and>
   (find (\<lambda>x. user_email x = dto_email dto) (users w) = None \<and> dto_password dto \<noteq> [] \<longrightarrow>
      (\<exists>u. fst (signup D salt new_id dto w) = Inr u \<and>
           user_password u = None \<and> user_email u = dto_email dto \<and> user_id u = new_id \<and>
           users (snd (signup D salt new_id dto w))
             = users w @ [u\<lparr>user_password := Some (bcrypt_hash D (dto_password dto) salt)\<rparr>])) \<and>
   (find (\<lambda>x. user_email x = dto_email dto) (users w) = None \<and> dto_password dto = [] \<longrightarrow>
      fst (signup D salt new_id dto w) = Inl (Error ''Password is required for hashing.'') \<and>
      users (snd (signup D salt new_id dto w)) = users w)"
  by (cases "find (\<lambda>x. user_email x = dto_email dto) (users w)")
     (simp_all add: signup_def findByEmail_def hashPassword_def create_def Let_def)

theorem signup_conflict_or_created_witness:
  "find (\<lambda>x. user_email x = ''user@example.com'') (users test_world) \<noteq> None \<and>
   fst (signup test_deps ''salt'' ''u2''
          \<lparr>dto_email = ''user@example.com'', dto_password = ''hunter2'', dto_role = ''user''\<rparr>
          test_world) = Inl (ConflictException ''User already exists'') \<and>
   find (\<lambda>x. user_email x = ''new@example.com'') (users test_world) = None \<and>
   (\<exists>u. fst (signup test_deps ''salt'' ''u2''
          \<lparr>dto_email = ''new@example.com'', dto_password = ''hunter2'', dto_role = ''user''\<rparr>
          test_world) = Inr u \<and> user_password u = None \<and>
        user_email u = ''new@example.com'' \<and> user_id u = ''u2'' \<and>
        users (snd (signup test_deps ''salt'' ''u2''
          \<lparr>dto_email = ''new@example.com'', dto_password = ''hunter2'', dto_role = ''user''\<rparr>
          test_world))
          = users test_world @ [u\<lparr>user_password := Some ''$2b$10$hunter2''\<rparr>])"
proof -
  have old: "find (\<lambda>x. user_email x = ''user@example.com'') (users test_world) \<noteq> None"
    by (simp add: test_world_def test_user_def)
  have new: "find (\<lambda>x. user_email x = ''new@example.com'') (users test_world) = None"
    by (simp add: test_world_def test_user_def)
  have h: "bcrypt_hash test_deps ''hunter2'' ''salt'' = ''$2b$10$hunter2''"
    by (simp add: test_deps_def)
  from signup_conflict_or_created [of
      "\<lparr>dto_email = ''user@example.com'', dto_password = ''hunter2'', dto_role = ''user''\<rparr>"
      test_world test_deps "''salt''" "''u2''"] old
  have 1: "fst (signup test_deps ''salt'' ''u2''
          \<lparr>dto_email = ''user@example.com'', dto_password = ''hunter2'', dto_role = ''user''\<rparr>
          test_world) = Inl (ConflictException ''User already exists'')"
    by simp
  from signup_conflict_or_created [of
      "\<lparr>dto_email = ''new@example.com'', dto_password = ''hunter2'', dto_role = ''user''\<rparr>"
      test_world test_deps "''salt''" "''u2''"] new
  have 2: "\<exists>u. fst (signup test_deps ''salt'' ''u2''
          \<lparr>dto_email = ''new@example.com'', dto_password = ''hunter2'', dto_role = ''user''\<rparr>
          test_world) = Inr u \<and> user_password u = None \<and>
        user_email u = ''new@example.com'' \<and> user_id u = ''u2'' \<and>
        users (snd (signup test_deps ''salt'' ''u2''
          \<lparr>dto_email = ''new@example.com'', dto_password = ''hunter2'', dto_role = ''user''\<rparr>
          test_world))
          = users test_world @ [u\<lparr>user_password := Some ''$2b$10$hunter2''\<rparr>]"
    by (simp add: h)
  from old new 1 2 show ?thesis by blast
qed

text \<open>
  C5 as stated fails: with an email no record has and the empty password, \<^verbatim>\<open>signup\<close>
  does not succeed; \<^verbatim>\<open>hashPassword\<close> throws.
\<close>

theorem signup_empty_password_counterexample:
  "find (\<lambda>x. user_email x = ''new@example.com'') (users test_world) = None \<and>
   fst (signup test_deps ''salt'' ''u2''
          \<lparr>dto_email = ''new@example.com'', dto_password = [], dto_role = ''user''\<rparr>
          test_world) = Inl (Error ''Password is required for hashing.'')"
  by (simp add: signup_def findByEmail_def hashPassword_def test_world_def test_user_def)

subsection \<open>Sign-out\<close>

text \<open>
  C2. In \<^verbatim>\<open>signout\<close> a missing user or token makes the body throw, and where the
  body reaches its own check the exception is \<^verbatim>\<open>NotFoundException('User not found')\<close>;
  but the \<^verbatim>\<open>catch\<close> around the body replaces every exception, so what the caller
  gets is \<^verbatim>\<open>InternalServerErrorException\<close>. Nothing is written.
\<close>

theorem signout_missing_is_internal:
  assumes "r = ReqUndefined \<or> r = ReqNull \<or> r = ReqObject None \<or> t = None \<or> t = Some []"
  shows "signout r t w = (Inl InternalServerErrorException, w) \<and>
         (r \<noteq> ReqUndefined \<and> r \<noteq> ReqNull \<longrightarrow>
            signout_try r t w = (Inl (NotFoundException ''User not found''), w))"
  using assms
  by (auto simp: signout_def signout_try_def split: req_user.splits option.splits)

theorem signout_missing_is_internal_witness:
  "signout (ReqObject None) (Some ''access-token'') test_world
     = (Inl InternalServerErrorException, test_world) \<and>
   signout (ReqObject (Some test_user)) None test_world
     = (Inl InternalServerErrorException, test_world) \<and>
   signout_try (ReqObject None) (Some ''access-token'') test_world
     = (Inl (NotFoundException ''User not found''), test_world)"
  using signout_missing_is_internal [of "ReqObject None" "Some ''access-token''" test_world]
    signout_missing_is_internal [of "ReqObject (Some test_user)" None test_world]
  by simp

subsection \<open>Password reset: an email nobody has\<close>

text \<open>
  C3. For a well-formed email under which no user is stored, \<^verbatim>\<open>resetPassword\<close> makes
  the lookup and then reads \<^verbatim>\<open>user.id\<close> of \<^verbatim>\<open>null\<close>: it fails with a
  \<^verbatim>\<open>TypeError\<close>, not with \<^verbatim>\<open>NotFoundException\<close>. No cache call and no update is
  made. \<^verbatim>\<open>forgotPassword\<close>, which checks the result of the same lookup, fails with
  \<^verbatim>\<open>NotFoundException('User not found')\<close>.
\<close>

theorem resetPassword_unknown_user:
  assumes "regex_match emailRegex email"
      and "find (\<lambda>x. user_email x = toLowerCase email) (users w) = None"
  shows "resetPassword D salt email otp pw w
           = (Inl (TypeError ''Cannot read properties of null (reading id)''),
              log_call (FindByEmail (toLowerCase email)) w) \<and>
         forgotPassword D email w
           = (Inl (NotFoundException ''User not found''),
              log_call (FindByEmail (toLowerCase email)) w)"
  using assms
  by (simp add: resetPassword_def forgotPassword_def validateEmail_def findByEmail_def)

theorem resetPassword_unknown_user_witness:
  "regex_match emailRegex ''nobody@example.com'' \<and>
   find (\<lambda>x. user_email x = toLowerCase ''nobody@example.com'') (users test_world) = None \<and>
   fst (resetPassword test_deps ''salt'' ''nobody@example.com'' ''111111'' ''new-password''
          test_world)
     = Inl (TypeError ''Cannot read properties of null (reading id)'') \<and>
   calls (snd (resetPassword test_deps ''salt'' ''nobody@example.com'' ''111111''
                 ''new-password'' test_world))
     = [FindByEmail ''nobody@example.com'']"
proof -
  have v: "regex_match emailRegex ''nobody@example.com''"
    by (simp add: emailRegex_def local_class_def domain_class_def in_range_def)
  have low: "toLowerCase ''nobody@example.com'' = ''nobody@example.com''" by code_simp
  have n: "find (\<lambda>x. user_email x = toLowerCase ''nobody@example.com'') (users test_world)
             = None"
    by (simp add: low test_world_def test_user_def)
  from resetPassword_unknown_user [OF v n, of test_deps "''salt''" "''111111''"
      "''new-password''"] v n
  show ?thesis by (simp add: low test_world_def)
qed

end
